theory Spec2Isabelle
  imports Main
begin

section \<open>MediTrack: appointments, booking validation and slot computations\<close>

text \<open>
  A shallow embedding of the appointment logic of MediTrackApp:
  \<^item> \<open>models.py\<close>: the \<open>Appointment\<close> model with its status choices and its
    uniqueness constraint \<open>unique_doctor_slot\<close>;
  \<^item> \<open>forms.py\<close>: \<open>AppointmentBookingForm.clean\<close> and \<open>AppointmentStatusForm\<close>;
  \<^item> \<open>views.py\<close>: \<open>book_appointment\<close>, \<open>appointment_update_status\<close>,
    \<open>get_available_time_slots\<close> and \<open>calculate_available_slots\<close>.

  Exceptions are values: a function that can raise returns \<open>error + 'a\<close>, with \<open>Inl\<close>
  the exception. The clock (\<open>timezone.now().date()\<close>, \<open>datetime.today()\<close>) and the table
  of appointments (\<open>Appointment.objects\<close>) are explicit arguments.
\<close>

subsection \<open>Dates and times of the standard library\<close>

text \<open>
  A \<open>datetime.date\<close> is its proleptic Gregorian ordinal (\<open>date.toordinal()\<close>): day 1 is
  0001-01-01 and day 3652059 is 9999-12-31, the bounds \<open>date.min\<close> and \<open>date.max\<close>.
  A naive \<open>datetime.time\<close> is its number of microseconds since midnight, which orders
  times as Python's comparison of (hour, minute, second, microsecond) does.
\<close>

type_synonym date = int
type_synonym time = int

datatype error =
    ValidationError string
  | ValueError
  | TypeError
  | OverflowError

definition MINORDINAL :: int where
  "MINORDINAL = 1"

definition MAXORDINAL :: int where
  "MAXORDINAL = 3652059"

definition valid_date :: "date \<Rightarrow> bool" where
  "valid_date d = (MINORDINAL \<le> d \<and> d \<le> MAXORDINAL)"

definition US_PER_MINUTE :: int where
  "US_PER_MINUTE = 60000000"

definition US_PER_DAY :: int where
  "US_PER_DAY = 86400000000"

definition valid_time :: "time \<Rightarrow> bool" where
  "valid_time t = (0 \<le> t \<and> t < US_PER_DAY)"

definition mk_time :: "int \<Rightarrow> int \<Rightarrow> int \<Rightarrow> time" where
  \<comment> \<open>\<open>datetime.time(hour, minute, second)\<close>\<close>
  "mk_time h m s = ((h * 60 + m) * 60 + s) * 1000000"

definition hour :: "time \<Rightarrow> int" where
  "hour t = t div 3600000000"

definition minute :: "time \<Rightarrow> int" where
  "minute t = (t div US_PER_MINUTE) mod 60"

subsection \<open>The Appointment model (models.py)\<close>

datatype status = Pending | Confirmed | Cancelled | Completed

definition STATUS_CHOICES :: "(string \<times> status) list" where
  "STATUS_CHOICES =
     [(''pending'', Pending), (''confirmed'', Confirmed),
      (''cancelled'', Cancelled), (''completed'', Completed)]"

text \<open>
  The fields of \<open>Appointment\<close> that the booking and status code reads or writes; foreign
  keys are the primary keys of the rows they point to. The default status is pending.
\<close>

record appointment =
  appt_id :: nat
  appt_patient :: nat
  appt_doctor :: nat
  appt_date :: date
  appt_time :: time
  appt_status :: status
  appt_end_time :: "time option"

definition objects_filter :: "appointment list \<Rightarrow> nat \<Rightarrow> date \<Rightarrow> time \<Rightarrow> appointment list" where
  \<comment> \<open>\<open>Appointment.objects.filter(doctor=doctor, date=date, time=time)\<close>\<close>
  "objects_filter objects doc d t =
     filter (\<lambda>a. appt_doctor a = doc \<and> appt_date a = d \<and> appt_time a = t) objects"

definition exists_qs :: "appointment list \<Rightarrow> bool" where
  \<comment> \<open>\<open>QuerySet.exists()\<close>\<close>
  "exists_qs qs = (qs \<noteq> [])"

definition unique_doctor_slot :: "appointment list \<Rightarrow> appointment \<Rightarrow> bool" where
  \<comment> \<open>\<open>UniqueConstraint(fields=["doctor", "date", "time"])\<close> of \<open>Appointment.Meta\<close>:
      whether the table accepts the new row \<open>a\<close>. The constraint has no condition, so rows
      of every status count.\<close>
  "unique_doctor_slot objects a =
     (\<not> exists_qs (objects_filter objects (appt_doctor a) (appt_date a) (appt_time a)))"

subsection \<open>Booking validation (forms.py, AppointmentBookingForm.clean)\<close>

text \<open>
  \<open>cleaned_data\<close> after the field validation of the form: a field whose own validation
  failed is absent, which \<open>cleaned.get\<close> reads as \<open>None\<close>. Model instances, dates and times
  are all truthy, so \<open>if date and ...\<close> only tests presence.
\<close>

record cleaned_data =
  cd_patient :: "nat option"
  cd_doctor :: "nat option"
  cd_date :: "date option"
  cd_time :: "time option"

definition PAST_MSG :: string where
  "PAST_MSG = ''You cannot book an appointment in the past.''"

definition BOOKED_MSG :: string where
  "BOOKED_MSG = ''This time slot is already booked.''"

definition clean :: "date \<Rightarrow> appointment list \<Rightarrow> cleaned_data \<Rightarrow> error + cleaned_data" where
  \<comment> \<open>\<open>now_date\<close> is \<open>timezone.now().date()\<close>, \<open>objects\<close> the appointment table.\<close>
  "clean now_date objects cleaned =
     (if (case cd_date cleaned of None \<Rightarrow> False | Some d \<Rightarrow> d < now_date)
      then Inl (ValidationError PAST_MSG)
      else if (case (cd_doctor cleaned, cd_date cleaned, cd_time cleaned) of
                 (Some doc, Some d, Some t) \<Rightarrow> exists_qs (objects_filter objects doc d t)
               | _ \<Rightarrow> False)
      then Inl (ValidationError BOOKED_MSG)
      else Inr cleaned)"

definition booking_request :: "nat \<Rightarrow> nat \<Rightarrow> date \<Rightarrow> time \<Rightarrow> cleaned_data" where
  \<comment> \<open>A request whose patient, doctor, date and time all passed field validation.\<close>
  "booking_request p doc d t =
     \<lparr>cd_patient = Some p, cd_doctor = Some doc, cd_date = Some d, cd_time = Some t\<rparr>"

text \<open>
  \<open>book_appointment\<close> saves the form only when \<open>form.is_valid()\<close>. For a \<open>ModelForm\<close> the
  framework cleans the fields, calls \<open>clean()\<close>, whose \<open>ValidationError\<close> becomes an error
  of the form, and then, whether or not \<open>clean()\<close> raised, validates the instance built
  from \<open>cleaned_data\<close> against the uniqueness constraints of the model. A constraint is
  skipped when one of its fields failed its own validation. The form is valid when the
  four required fields are present and no error was recorded.
\<close>

definition UNIQUE_MSG :: string where
  "UNIQUE_MSG = ''Appointment with this Doctor, Date and Time already exists.''"

definition validate_unique :: "appointment list \<Rightarrow> cleaned_data \<Rightarrow> error list" where
  \<comment> \<open>the check of \<open>unique_doctor_slot\<close> for the instance about to be created\<close>
  "validate_unique objects cleaned =
     (case (cd_doctor cleaned, cd_date cleaned, cd_time cleaned) of
        (Some doc, Some d, Some t) \<Rightarrow>
          if exists_qs (objects_filter objects doc d t)
          then [ValidationError UNIQUE_MSG] else []
      | _ \<Rightarrow> [])"

definition booking_errors :: "date \<Rightarrow> appointment list \<Rightarrow> cleaned_data \<Rightarrow> error list" where
  "booking_errors now_date objects cleaned =
     (case clean now_date objects cleaned of Inl e \<Rightarrow> [e] | Inr c \<Rightarrow> [])
     @ validate_unique objects cleaned"

definition booking_is_valid :: "date \<Rightarrow> appointment list \<Rightarrow> cleaned_data \<Rightarrow> bool" where
  "booking_is_valid now_date objects cleaned =
     (cd_patient cleaned \<noteq> None \<and> cd_doctor cleaned \<noteq> None \<and>
      cd_date cleaned \<noteq> None \<and> cd_time cleaned \<noteq> None \<and>
      booking_errors now_date objects cleaned = [])"

subsection \<open>Status update (forms.py AppointmentStatusForm, views.py appointment_update_status)\<close>

text \<open>
  \<open>AppointmentStatusForm\<close> is a \<open>ModelForm\<close> over the fields \<open>status\<close> and \<open>end_time\<close> and
  declares no \<open>clean\<close> method. Its validation is the framework's field validation: the
  posted status must be one of \<open>STATUS_CHOICES\<close>, and the optional \<open>end_time\<close> must
  parse as a time when it is not blank. The posted \<open>end_time\<close> is given here by the
  outcome of the framework's \<open>TimeField\<close>.
\<close>

datatype time_field = Blank | Parsed time | Unparsable

record status_post =
  post_status :: string
  post_end_time :: time_field

definition form_is_valid :: "status_post \<Rightarrow> bool" where
  "form_is_valid post =
     (map_of STATUS_CHOICES (post_status post) \<noteq> None \<and> post_end_time post \<noteq> Unparsable)"

definition form_save :: "appointment \<Rightarrow> status_post \<Rightarrow> appointment" where
  \<comment> \<open>\<open>form.save()\<close> of a valid form: the two form fields are written to the instance.\<close>
  "form_save a post =
     a\<lparr>appt_status := (case map_of STATUS_CHOICES (post_status post) of
                     Some s \<Rightarrow> s | None \<Rightarrow> appt_status a),
       appt_end_time := (case post_end_time post of
                      Parsed e \<Rightarrow> Some e | _ \<Rightarrow> None)\<rparr>"

datatype response = Redirect string | Render string | Http404

fun get_object_or_404 :: "appointment list \<Rightarrow> nat \<Rightarrow> nat \<Rightarrow> appointment option" where
  \<comment> \<open>\<open>get_object_or_404(Appointment, id=appointment_id, doctor=doctor_profile)\<close>\<close>
  "get_object_or_404 [] i doc = None"
| "get_object_or_404 (a # rest) i doc =
     (if appt_id a = i \<and> appt_doctor a = doc then Some a else get_object_or_404 rest i doc)"

definition appointment_update_status ::
  "appointment list \<Rightarrow> nat \<Rightarrow> nat \<Rightarrow> status_post option \<Rightarrow> response \<times> appointment list" where
  \<comment> \<open>\<open>doc\<close> is \<open>request.user.doctor_profile\<close>; \<open>post\<close> is \<open>None\<close> for a GET request.
      Returns the response and the table after the request.\<close>
  "appointment_update_status objects doc appointment_id post =
     (case get_object_or_404 objects appointment_id doc of
        None \<Rightarrow> (Http404, objects)
      | Some appointment \<Rightarrow>
          (case post of
             Some p \<Rightarrow>
               if form_is_valid p
               then (Redirect ''doctor_dashboard'',
                     map (\<lambda>a. if appt_id a = appt_id appointment
                               then form_save appointment p else a) objects)
               else (Render ''appointment_status.html'', objects)
           | None \<Rightarrow> (Render ''appointment_status.html'', objects)))"

subsection \<open>JSON values and the Python operations applied to them\<close>

text \<open>
  \<open>DoctorProfile.available_days\<close> and \<open>available_time_slots\<close> are \<open>JSONField\<close>s, so the
  code can find any JSON value there. Numbers with a fraction or an exponent are left out
  of this model. An object is the list of its items in insertion order, with distinct
  keys.

  A Python \<open>str\<close> is the list of its Unicode code points; \<open>ustr\<close> writes one from an
  ASCII literal.
\<close>

type_synonym py_str = "int list"

definition ustr :: "string \<Rightarrow> py_str" where
  "ustr s = map of_char s"

datatype json =
    JNull
  | JBool bool
  | JInt int
  | JStr py_str
  | JList "json list"
  | JObj "(py_str \<times> json) list"

fun truthy :: "json \<Rightarrow> bool" where
  "truthy JNull = False"
| "truthy (JBool b) = b"
| "truthy (JInt i) = (i \<noteq> 0)"
| "truthy (JStr s) = (s \<noteq> [])"
| "truthy (JList xs) = (xs \<noteq> [])"
| "truthy (JObj kvs) = (kvs \<noteq> [])"

definition py_or :: "json \<Rightarrow> json \<Rightarrow> json" where
  \<comment> \<open>Python's \<open>a or b\<close>\<close>
  "py_or a b = (if truthy a then a else b)"

fun int_eq :: "int \<Rightarrow> json \<Rightarrow> bool" where
  \<comment> \<open>\<open>w == x\<close> for an int \<open>w\<close>; \<open>True == 1\<close> and \<open>False == 0\<close> hold in Python.\<close>
  "int_eq w (JInt i) = (w = i)"
| "int_eq w (JBool b) = (w = (if b then 1 else 0))"
| "int_eq w JNull = False"
| "int_eq w (JStr s) = False"
| "int_eq w (JList xs) = False"
| "int_eq w (JObj kvs) = False"

fun int_in :: "int \<Rightarrow> json \<Rightarrow> error + bool" where
  \<comment> \<open>\<open>w in x\<close> for an int \<open>w\<close>: membership in a list, key lookup in a dict (whose keys
      are strings), \<open>TypeError\<close> for a string and for a value that is no container.\<close>
  "int_in w (JList xs) = Inr (filter (int_eq w) xs \<noteq> [])"
| "int_in w (JObj kvs) = Inr False"
| "int_in w (JStr s) = Inl TypeError"
| "int_in w JNull = Inl TypeError"
| "int_in w (JBool b) = Inl TypeError"
| "int_in w (JInt i) = Inl TypeError"

fun iter_json :: "json \<Rightarrow> error + json list" where
  \<comment> \<open>The items that \<open>for slot in x\<close> visits: the elements of a list, the characters of
      a string, the keys of a dict; \<open>TypeError\<close> otherwise.\<close>
  "iter_json (JList xs) = Inr xs"
| "iter_json (JStr s) = Inr (map (\<lambda>c. JStr [c]) s)"
| "iter_json (JObj kvs) = Inr (map (\<lambda>kv. JStr (fst kv)) kvs)"
| "iter_json JNull = Inl TypeError"
| "iter_json (JBool b) = Inl TypeError"
| "iter_json (JInt i) = Inl TypeError"

subsection \<open>datetime.strptime with the format "%H:%M:%S"\<close>

text \<open>
  The standard library turns the format into the regular expression
  \<^verbatim>\<open>(?P<H>2[0-3]|[0-1]\d|\d):(?P<M>[0-5]\d|\d):(?P<S>6[0-1]|[0-5]\d|\d)\<close>,
  matches it at the start of the text, converts each group with \<open>int\<close>, and raises
  \<open>ValueError\<close> when there is no match, when text remains after the match, or when the
  second is 60 or 61 (which the expression admits and \<open>datetime\<close> refuses).

  In the expression \<open>\d\<close> matches every Unicode decimal digit, while the classes
  \<open>[0-3]\<close>, \<open>[0-1]\<close>, \<open>[0-5]\<close> and the literals \<open>2\<close> and \<open>6\<close> match ASCII characters only;
  \<open>int\<close> reads every decimal digit by its value. The decimal digits come in runs of ten
  consecutive code points with the values 0 to 9; \<open>DECIMAL_ZEROS\<close> lists the first code
  point of each run in Unicode 14.0, the database of Python 3.11.

  Each group below lists the ways its alternatives match, in the order the matcher tries
  them, each with the text matched and the text left over.
\<close>

definition DECIMAL_ZEROS :: "int list" where
  "DECIMAL_ZEROS =
     [48, 1632, 1776, 1984, 2406, 2534, 2662, 2790, 2918, 3046, 3174, 3302, 3430, 3558,
      3664, 3792, 3872, 4160, 4240, 6112, 6160, 6470, 6608, 6784, 6800, 6992, 7088, 7232,
      7248, 42528, 43216, 43264, 43472, 43504, 43600, 44016, 65296, 66720, 68912, 69734,
      69872, 69942, 70096, 70384, 70736, 70864, 71248, 71360, 71472, 71904, 72016, 72784,
      73040, 73120, 92768, 92864, 93008, 120782, 120792, 120802, 120812, 120822, 123200,
      123632, 125264, 130032]"

definition decimal :: "int \<Rightarrow> int option" where
  \<comment> \<open>the value of a decimal digit, \<open>None\<close> for any other code point\<close>
  "decimal c =
     (case filter (\<lambda>z. z \<le> c \<and> c < z + 10) DECIMAL_ZEROS of
        [] \<Rightarrow> None
      | z # _ \<Rightarrow> Some (c - z))"

definition is_digit :: "int \<Rightarrow> bool" where
  \<comment> \<open>the class \<open>\d\<close>\<close>
  "is_digit c = (decimal c \<noteq> None)"

definition between :: "char \<Rightarrow> char \<Rightarrow> int \<Rightarrow> bool" where
  \<comment> \<open>the class \<open>[lo-hi]\<close> of ASCII characters\<close>
  "between lo hi c = (of_char lo \<le> c \<and> c \<le> of_char hi)"

definition py_int :: "py_str \<Rightarrow> int" where
  \<comment> \<open>\<open>int\<close> of a text of decimal digits\<close>
  "py_int s = foldl (\<lambda>n c. 10 * n + (case decimal c of Some v \<Rightarrow> v | None \<Rightarrow> 0)) 0 s"

definition two_chars ::
  "(int \<Rightarrow> bool) \<Rightarrow> (int \<Rightarrow> bool) \<Rightarrow> py_str \<Rightarrow> (py_str \<times> py_str) list" where
  "two_chars p q s =
     (case s of
        a # b # r \<Rightarrow> if p a \<and> q b then [([a, b], r)] else []
      | _ \<Rightarrow> [])"

definition one_char :: "(int \<Rightarrow> bool) \<Rightarrow> py_str \<Rightarrow> (py_str \<times> py_str) list" where
  "one_char p s =
     (case s of a # r \<Rightarrow> if p a then [([a], r)] else [] | [] \<Rightarrow> [])"

definition re_H :: "py_str \<Rightarrow> (py_str \<times> py_str) list" where
  "re_H s =
     two_chars (between CHR ''2'' CHR ''2'') (between CHR ''0'' CHR ''3'') s
     @ two_chars (between CHR ''0'' CHR ''1'') is_digit s
     @ one_char is_digit s"

definition re_M :: "py_str \<Rightarrow> (py_str \<times> py_str) list" where
  "re_M s =
     two_chars (between CHR ''0'' CHR ''5'') is_digit s
     @ one_char is_digit s"

definition re_S :: "py_str \<Rightarrow> (py_str \<times> py_str) list" where
  "re_S s =
     two_chars (between CHR ''6'' CHR ''6'') (between CHR ''0'' CHR ''1'') s
     @ two_chars (between CHR ''0'' CHR ''5'') is_digit s
     @ one_char is_digit s"

definition colon :: "py_str \<Rightarrow> py_str list" where
  "colon s = (case s of c # r \<Rightarrow> if c = of_char CHR '':'' then [r] else [] | [] \<Rightarrow> [])"

definition re_match :: "py_str \<Rightarrow> (py_str \<times> py_str \<times> py_str \<times> py_str) list" where
  "re_match s =
     List.bind (re_H s) (\<lambda>(h, r1).
     List.bind (colon r1) (\<lambda>r2.
     List.bind (re_M r2) (\<lambda>(m, r3).
     List.bind (colon r3) (\<lambda>r4.
     List.bind (re_S r4) (\<lambda>(sec, r5). [(h, m, sec, r5)])))))"

definition strptime_HMS :: "py_str \<Rightarrow> error + time" where
  \<comment> \<open>\<open>datetime.strptime(s, "%H:%M:%S").time()\<close>\<close>
  "strptime_HMS s =
     (case re_match s of
        [] \<Rightarrow> Inl ValueError
      | (h, m, sec, rest) # _ \<Rightarrow>
          if rest \<noteq> [] then Inl ValueError
          else if 59 < py_int sec then Inl ValueError
          else Inr (mk_time (py_int h) (py_int m) (py_int sec)))"

fun strptime :: "json \<Rightarrow> error + time" where
  \<comment> \<open>The first argument of \<open>strptime\<close> must be a \<open>str\<close>.\<close>
  "strptime (JStr s) = strptime_HMS s"
| "strptime JNull = Inl TypeError"
| "strptime (JBool b) = Inl TypeError"
| "strptime (JInt i) = Inl TypeError"
| "strptime (JList xs) = Inl TypeError"
| "strptime (JObj kvs) = Inl TypeError"

subsection \<open>Counting available slots (views.py, calculate_available_slots)\<close>

record doctor_profile =
  available_days :: json
  available_time_slots :: json

definition weekday :: "date \<Rightarrow> int" where
  \<comment> \<open>\<open>date.weekday()\<close>: Monday is 0, Sunday is 6.\<close>
  "weekday d = (d + 6) mod 7"

definition date_add_days :: "date \<Rightarrow> int \<Rightarrow> error + date" where
  \<comment> \<open>\<open>d + timedelta(days=n)\<close>: \<open>OverflowError\<close> outside \<open>date.min .. date.max\<close>.\<close>
  "date_add_days d n =
     (if MINORDINAL \<le> d + n \<and> d + n \<le> MAXORDINAL then Inr (d + n) else Inl OverflowError)"

definition DEFAULT_DAYS :: json where
  "DEFAULT_DAYS = JList [JInt 1, JInt 2, JInt 3, JInt 4, JInt 5]"

definition DEFAULT_SLOTS :: json where
  "DEFAULT_SLOTS = JList [JStr (ustr ''09:00:00'')]"

definition resolve_days :: "doctor_profile \<Rightarrow> json" where
  \<comment> \<open>\<open>doctor_profile.available_days or [1, 2, 3, 4, 5]\<close>\<close>
  "resolve_days doctor_profile = py_or (available_days doctor_profile) DEFAULT_DAYS"

definition resolve_slots :: "(py_str \<Rightarrow> json option) \<Rightarrow> doctor_profile \<Rightarrow> json" where
  \<comment> \<open>\<open>json_loads\<close> is \<open>json.loads\<close> of the standard library, \<open>None\<close> where it raises.\<close>
  "resolve_slots json_loads doctor_profile =
     (case available_time_slots doctor_profile of
        JStr slots_raw \<Rightarrow>
          (case json_loads slots_raw of Some v \<Rightarrow> v | None \<Rightarrow> DEFAULT_SLOTS)
      | slots_raw \<Rightarrow> py_or slots_raw DEFAULT_SLOTS)"

function business_days_loop :: "json \<Rightarrow> date \<Rightarrow> date \<Rightarrow> int \<Rightarrow> error + int" where
  "business_days_loop days current_date end_date business_days =
     (if current_date \<le> end_date
      then (case int_in (weekday current_date) days of
              Inl e \<Rightarrow> Inl e
            | Inr hit \<Rightarrow>
                (case date_add_days current_date 1 of
                   Inl e \<Rightarrow> Inl e
                 | Inr next_date \<Rightarrow>
                     business_days_loop days next_date end_date
                       (if hit then business_days + 1 else business_days)))
      else Inr business_days)"
  by pat_completeness auto
termination
  by (relation "measure (\<lambda>(days, current_date, end_date, business_days).
                   nat (end_date + 1 - current_date))")
     (auto simp: date_add_days_def split: if_splits)

declare business_days_loop.simps [simp del]

fun total_slots_loop :: "json list \<Rightarrow> int \<Rightarrow> int \<Rightarrow> error + int" where
  "total_slots_loop [] business_days total_slots = Inr total_slots"
| "total_slots_loop (slot # rest) business_days total_slots =
     (case strptime slot of
        Inl e \<Rightarrow> Inl e
      | Inr start \<Rightarrow> total_slots_loop rest business_days (total_slots + 4 * business_days))"

definition calculate_available_slots ::
  "(py_str \<Rightarrow> json option) \<Rightarrow> doctor_profile \<Rightarrow> date \<Rightarrow> date \<Rightarrow> error + int" where
  "calculate_available_slots json_loads doctor_profile start_date end_date =
     (let days = resolve_days doctor_profile;
          available_slots = resolve_slots json_loads doctor_profile
      in case business_days_loop days start_date end_date 0 of
           Inl e \<Rightarrow> Inl e
         | Inr business_days \<Rightarrow>
             (case iter_json available_slots of
                Inl e \<Rightarrow> Inl e
              | Inr items \<Rightarrow> total_slots_loop items business_days 0))"

subsection \<open>Listing free start times (views.py, get_available_time_slots)\<close>

text \<open>
  A naive \<open>datetime\<close> is its number of microseconds since the midnight that begins day 0,
  a \<open>timedelta\<close> a number of microseconds. \<open>timedelta(minutes=m)\<close> raises
  \<open>OverflowError\<close> when its day count leaves \<open>-999999999 .. 999999999\<close>, and adding a
  \<open>timedelta\<close> to a \<open>datetime\<close> raises it when the date leaves \<open>date.min .. date.max\<close>.
\<close>

type_synonym datetime = int

definition combine :: "date \<Rightarrow> time \<Rightarrow> datetime" where
  "combine d t = d * US_PER_DAY + t"

definition dt_time :: "datetime \<Rightarrow> time" where
  \<comment> \<open>\<open>datetime.time()\<close>\<close>
  "dt_time dt = dt mod US_PER_DAY"

definition dt_date :: "datetime \<Rightarrow> date" where
  "dt_date dt = dt div US_PER_DAY"

definition timedelta_minutes :: "int \<Rightarrow> error + int" where
  "timedelta_minutes m =
     (if - 999999999 \<le> m div 1440 \<and> m div 1440 \<le> 999999999
      then Inr (m * US_PER_MINUTE) else Inl OverflowError)"

definition datetime_add :: "datetime \<Rightarrow> int \<Rightarrow> error + datetime" where
  "datetime_add dt td =
     (if valid_date (dt_date (dt + td)) then Inr (dt + td) else Inl OverflowError)"

definition two_digit :: "int \<Rightarrow> string" where
  \<comment> \<open>a number below 100 as two decimal digits\<close>
  "two_digit n = [''0123456789'' ! nat (n div 10), ''0123456789'' ! nat (n mod 10)]"

definition strftime_HM :: "time \<Rightarrow> string" where
  \<comment> \<open>\<open>strftime("%H:%M")\<close>\<close>
  "strftime_HM t = two_digit (hour t) @ '':'' @ two_digit (minute t)"

partial_function (option) time_slots_loop ::
  "time \<Rightarrow> int \<Rightarrow> string list \<Rightarrow> datetime \<Rightarrow> string list \<Rightarrow> (error + string list) option" where
  "time_slots_loop end_time slot_duration booked_slots current_time slots =
     (if dt_time current_time < end_time
      then (let slot_str = strftime_HM (dt_time current_time);
                slots' = (if slot_str \<notin> set booked_slots then slots @ [slot_str] else slots)
            in case timedelta_minutes slot_duration of
                 Inl e \<Rightarrow> Some (Inl e)
               | Inr td \<Rightarrow>
                   (case datetime_add current_time td of
                      Inl e \<Rightarrow> Some (Inl e)
                    | Inr next_time \<Rightarrow>
                        time_slots_loop end_time slot_duration booked_slots next_time slots'))
      else Some (Inr slots))"

declare time_slots_loop.simps [code]

definition get_available_time_slots ::
  "date \<Rightarrow> time \<Rightarrow> time \<Rightarrow> int \<Rightarrow> string list \<Rightarrow> (error + string list) option" where
  \<comment> \<open>\<open>today\<close> is the date of \<open>datetime.today()\<close>. The result is \<open>None\<close> when the loop
      never ends.\<close>
  "get_available_time_slots today start_time end_time slot_duration booked_slots =
     time_slots_loop end_time slot_duration booked_slots (combine today start_time) []"

definition add_slot :: "string list \<Rightarrow> datetime \<Rightarrow> string list \<Rightarrow> string list" where
  \<comment> \<open>\<open>slots\<close> after one run of the loop body at \<open>current_time\<close>\<close>
  "add_slot booked_slots current_time slots =
     (if strftime_HM (dt_time current_time) \<notin> set booked_slots
      then slots @ [strftime_HM (dt_time current_time)] else slots)"

subsection \<open>Notions of the specification\<close>

text \<open>
  The specification speaks of appointments at the same (doctor, date, time), of
  non-cancelled appointments, of business days and of valid anchors. These definitions
  follow its words, so that its statements can be compared with the code above.
\<close>

definition same_slot :: "nat \<Rightarrow> date \<Rightarrow> time \<Rightarrow> appointment \<Rightarrow> bool" where
  "same_slot doc d t a = (appt_doctor a = doc \<and> appt_date a = d \<and> appt_time a = t)"

definition exclude_cancelled :: "appointment list \<Rightarrow> appointment list" where
  "exclude_cancelled objects = filter (\<lambda>a. appt_status a \<noteq> Cancelled) objects"

definition is_business_day :: "json list \<Rightarrow> date \<Rightarrow> bool" where
  \<comment> \<open>the weekday of \<open>d\<close> lies in the resolved availability list \<open>ds\<close>\<close>
  "is_business_day ds d = (filter (int_eq (weekday d)) ds \<noteq> [])"

definition business_days :: "json list \<Rightarrow> date \<Rightarrow> date \<Rightarrow> int" where
  \<comment> \<open>the number of dates in \<open>[start_date, end_date]\<close> that are business days\<close>
  "business_days ds start_date end_date =
     int (length (filter (is_business_day ds) [start_date..end_date]))"

definition valid_anchors :: "json list \<Rightarrow> json list" where
  \<comment> \<open>the entries that parse as a time of day\<close>
  "valid_anchors items =
     filter (\<lambda>x. case strptime x of Inl e \<Rightarrow> False | Inr t \<Rightarrow> True) items"

subsection \<open>Example data\<close>

text \<open>
  Day 739412 is Tuesday 2025-06-10. The rows below are appointments of doctor 1 on that
  day at 10:00. \<open>unset_profile\<close> is a profile with both JSON fields at their default, the
  empty list; \<open>mixed_profile\<close> configures one good and one malformed anchor.
  \<open>loads_none\<close> stands for \<open>json.loads\<close> where no text is ever decoded.
\<close>

definition cancelled_row :: appointment where
  "cancelled_row =
     \<lparr>appt_id = 1, appt_patient = 5, appt_doctor = 1, appt_date = 739412,
      appt_time = mk_time 10 0 0, appt_status = Cancelled, appt_end_time = None\<rparr>"

definition completed_row :: appointment where
  "completed_row =
     \<lparr>appt_id = 1, appt_patient = 5, appt_doctor = 1, appt_date = 739412,
      appt_time = mk_time 10 0 0, appt_status = Completed, appt_end_time = None\<rparr>"

definition pending_row :: appointment where
  "pending_row =
     \<lparr>appt_id = 1, appt_patient = 5, appt_doctor = 1, appt_date = 739412,
      appt_time = mk_time 10 0 0, appt_status = Pending, appt_end_time = None\<rparr>"

definition unset_profile :: doctor_profile where
  "unset_profile = \<lparr>available_days = JList [], available_time_slots = JList []\<rparr>"

definition mixed_profile :: doctor_profile where
  "mixed_profile =
     \<lparr>available_days = JList [],
      available_time_slots = JList [JStr (ustr ''09:00:00''), JStr (ustr ''not-a-time'')]\<rparr>"

definition loads_none :: "py_str \<Rightarrow> json option" where
  "loads_none s = None"

section \<open>Booking validation\<close>

lemma exists_filter_iff:
  "exists_qs (objects_filter objects doc d t) = (\<exists>a \<in> set objects. same_slot doc d t a)"
  by (auto simp: exists_qs_def objects_filter_def same_slot_def filter_empty_conv)

lemma clean_request:
  "clean now_date objects (booking_request p doc d t) =
     (if d < now_date then Inl (ValidationError PAST_MSG)
      else if exists_qs (objects_filter objects doc d t) then Inl (ValidationError BOOKED_MSG)
      else Inr (booking_request p doc d t))"
  by (simp add: clean_def booking_request_def)

text \<open>
  C1 (as amended). For every booking request (doctor, date, time) the checks run in order
  and stop at the first failure: a date before the clock's date is refused with the
  past-date error whatever the table holds; otherwise an existing appointment of any
  status, cancelled included, at the same (doctor, date, time) is refused with the
  slot-taken error; otherwise the request is accepted unchanged.
\<close>

theorem booking_checks_in_order:
  "(d < now_date \<longrightarrow>
      clean now_date objects (booking_request p doc d t) = Inl (ValidationError PAST_MSG)) \<and>
   (\<not> d < now_date \<and> (\<exists>a \<in> set objects. same_slot doc d t a) \<longrightarrow>
      clean now_date objects (booking_request p doc d t) = Inl (ValidationError BOOKED_MSG)) \<and>
   (\<not> d < now_date \<and> \<not> (\<exists>a \<in> set objects. same_slot doc d t a) \<longrightarrow>
      clean now_date objects (booking_request p doc d t) = Inr (booking_request p doc d t))"
proof (intro conjI impI)
  assume "d < now_date"
  then show "clean now_date objects (booking_request p doc d t) = Inl (ValidationError PAST_MSG)"
    by (simp add: clean_request)
next
  assume "\<not> d < now_date \<and> (\<exists>a \<in> set objects. same_slot doc d t a)"
  then have "\<not> d < now_date" and "exists_qs (objects_filter objects doc d t)"
    by (simp_all add: exists_filter_iff)
  then show "clean now_date objects (booking_request p doc d t)
               = Inl (ValidationError BOOKED_MSG)"
    by (simp add: clean_request)
next
  assume "\<not> d < now_date \<and> \<not> (\<exists>a \<in> set objects. same_slot doc d t a)"
  then have "\<not> d < now_date" and "\<not> exists_qs (objects_filter objects doc d t)"
    by (simp_all add: exists_filter_iff)
  then show "clean now_date objects (booking_request p doc d t)
               = Inr (booking_request p doc d t)"
    by (simp add: clean_request)
qed

theorem booking_checks_in_order_witness:
  "clean 739412 [cancelled_row] (booking_request 7 1 739411 (mk_time 10 0 0))
     = Inl (ValidationError PAST_MSG) \<and>
   clean 739412 [cancelled_row] (booking_request 7 1 739412 (mk_time 10 0 0))
     = Inl (ValidationError BOOKED_MSG) \<and>
   clean 739412 [cancelled_row] (booking_request 7 1 739412 (mk_time 11 0 0))
     = Inr (booking_request 7 1 739412 (mk_time 11 0 0))"
  using booking_checks_in_order [of 739411 739412 "[cancelled_row]" 7 1 "mk_time 10 0 0"]
    booking_checks_in_order [of 739412 739412 "[cancelled_row]" 7 1 "mk_time 10 0 0"]
    booking_checks_in_order [of 739412 739412 "[cancelled_row]" 7 1 "mk_time 11 0 0"]
  by (simp add: same_slot_def cancelled_row_def mk_time_def)

text \<open>
  C1 as written lets a request through when no non-cancelled appointment holds the slot.
  Here the date is not past and the only appointment at the slot is cancelled, yet the
  request is refused.
\<close>

theorem booking_cancelled_slot_counterexample:
  "\<not> 739412 < (739412 :: int) \<and>
   exclude_cancelled (objects_filter [cancelled_row] 1 739412 (mk_time 10 0 0)) = [] \<and>
   clean 739412 [cancelled_row] (booking_request 7 1 739412 (mk_time 10 0 0))
     = Inl (ValidationError BOOKED_MSG)"
  by (simp add: clean_request exclude_cancelled_def objects_filter_def exists_qs_def
        cancelled_row_def)

text \<open>
  C10. Cancelling an appointment does not free its slot: for every booking request
  (doctor, date, time) such that a cancelled appointment sits at that exact
  (doctor, date, time) and no non-cancelled one does, booking validation rejects the
  request as a slot conflict. The query of the conflict check finds the cancelled
  appointment, the uniqueness constraint refuses the new row, the form is invalid and
  carries the uniqueness error whatever the date is, and \<open>clean\<close> itself raises the
  slot-taken error whenever its earlier date check lets the request through.
\<close>

theorem cancelled_slot_stays_taken:
  assumes "a \<in> set objects" and "same_slot doc d t a" and "appt_status a = Cancelled"
    and "exclude_cancelled (objects_filter objects doc d t) = []"
  shows "\<not> booking_is_valid now_date objects (booking_request p doc d t) \<and>
         ValidationError UNIQUE_MSG
           \<in> set (booking_errors now_date objects (booking_request p doc d t)) \<and>
         exists_qs (objects_filter objects doc d t) \<and>
         \<not> unique_doctor_slot objects
             \<lparr>appt_id = i, appt_patient = p, appt_doctor = doc, appt_date = d, appt_time = t,
              appt_status = Pending, appt_end_time = None\<rparr> \<and>
         (\<not> d < now_date \<longrightarrow>
            clean now_date objects (booking_request p doc d t)
              = Inl (ValidationError BOOKED_MSG))"
proof -
  from assms(1,2) have found: "exists_qs (objects_filter objects doc d t)"
    by (auto simp: exists_filter_iff)
  then have uniq: "validate_unique objects (booking_request p doc d t)
                     = [ValidationError UNIQUE_MSG]"
    by (simp add: validate_unique_def booking_request_def)
  then have err: "ValidationError UNIQUE_MSG
                    \<in> set (booking_errors now_date objects (booking_request p doc d t))"
    by (simp add: booking_errors_def)
  then have "booking_errors now_date objects (booking_request p doc d t) \<noteq> []"
    by auto
  then have invalid: "\<not> booking_is_valid now_date objects (booking_request p doc d t)"
    by (simp add: booking_is_valid_def)
  from found have row: "\<not> unique_doctor_slot objects
             \<lparr>appt_id = i, appt_patient = p, appt_doctor = doc, appt_date = d, appt_time = t,
              appt_status = Pending, appt_end_time = None\<rparr>"
    by (simp add: unique_doctor_slot_def)
  from found have "\<not> d < now_date \<longrightarrow>
            clean now_date objects (booking_request p doc d t)
              = Inl (ValidationError BOOKED_MSG)"
    by (simp add: clean_request)
  with invalid err found row show ?thesis by blast
qed

theorem cancelled_slot_stays_taken_witness:
  "cancelled_row \<in> set [cancelled_row] \<and>
   same_slot 1 739412 (mk_time 10 0 0) cancelled_row \<and>
   appt_status cancelled_row = Cancelled \<and>
   exclude_cancelled (objects_filter [cancelled_row] 1 739412 (mk_time 10 0 0)) = [] \<and>
   \<not> booking_is_valid 739413 [cancelled_row] (booking_request 7 1 739412 (mk_time 10 0 0)) \<and>
   ValidationError UNIQUE_MSG
     \<in> set (booking_errors 739413 [cancelled_row] (booking_request 7 1 739412 (mk_time 10 0 0))) \<and>
   \<not> booking_is_valid 739412 [cancelled_row] (booking_request 7 1 739412 (mk_time 10 0 0)) \<and>
   clean 739412 [cancelled_row] (booking_request 7 1 739412 (mk_time 10 0 0))
     = Inl (ValidationError BOOKED_MSG)"
proof -
  have h1: "cancelled_row \<in> set [cancelled_row]" by simp
  have h2: "same_slot 1 739412 (mk_time 10 0 0) cancelled_row"
    by (simp add: same_slot_def cancelled_row_def)
  have h3: "appt_status cancelled_row = Cancelled" by (simp add: cancelled_row_def)
  have h4: "exclude_cancelled (objects_filter [cancelled_row] 1 739412 (mk_time 10 0 0)) = []"
    by (simp add: exclude_cancelled_def objects_filter_def cancelled_row_def)
  from cancelled_slot_stays_taken [OF h1 h2 h3 h4, of 739413 7 2]
    cancelled_slot_stays_taken [OF h1 h2 h3 h4, of 739412 7 2] h1 h2 h3 h4
  show ?thesis by simp
qed

text \<open>
  At a past date \<open>clean\<close> raises the past-date error first; the slot conflict is then
  reported by the uniqueness validation, and the form carries both errors.
\<close>

lemma cancelled_slot_past_date_errors:
  "booking_errors 739413 [cancelled_row] (booking_request 7 1 739412 (mk_time 10 0 0))
     = [ValidationError PAST_MSG, ValidationError UNIQUE_MSG]"
proof -
  have c: "clean 739413 [cancelled_row] (booking_request 7 1 739412 (mk_time 10 0 0))
             = Inl (ValidationError PAST_MSG)"
    by (simp add: clean_request)
  have u: "validate_unique [cancelled_row] (booking_request 7 1 739412 (mk_time 10 0 0))
             = [ValidationError UNIQUE_MSG]"
    by (simp add: validate_unique_def booking_request_def objects_filter_def exists_qs_def
        cancelled_row_def)
  show ?thesis unfolding booking_errors_def c u by simp
qed

section \<open>Status update\<close>

lemma get_object_or_404_fields:
  "get_object_or_404 objects i doc = Some a \<Longrightarrow> appt_id a = i \<and> appt_doctor a = doc"
  by (induction objects) (auto split: if_splits)

lemma get_object_after_save:
  assumes "get_object_or_404 objects i doc = Some a"
    and "appt_id b = i" and "appt_doctor b = doc"
  shows "get_object_or_404 (map (\<lambda>x. if appt_id x = i then b else x) objects) i doc = Some b"
  using assms by (induction objects) (auto split: if_splits)

lemma form_save_keys:
  "appt_id (form_save a p) = appt_id a" "appt_doctor (form_save a p) = appt_doctor a"
  "appt_time (form_save a p) = appt_time a" "appt_date (form_save a p) = appt_date a"
  by (simp_all add: form_save_def)

lemma update_status_valid:
  assumes "get_object_or_404 objects i doc = Some a" and "form_is_valid p"
  shows "fst (appointment_update_status objects doc i (Some p)) = Redirect ''doctor_dashboard''"
    and "get_object_or_404 (snd (appointment_update_status objects doc i (Some p))) i doc
           = Some (form_save a p)"
proof -
  from assms(1) have k: "appt_id a = i" "appt_doctor a = doc"
    using get_object_or_404_fields by blast+
  show "fst (appointment_update_status objects doc i (Some p)) = Redirect ''doctor_dashboard''"
    using assms by (simp add: appointment_update_status_def)
  show "get_object_or_404 (snd (appointment_update_status objects doc i (Some p))) i doc
           = Some (form_save a p)"
    using assms k get_object_after_save [OF assms(1), of "form_save a p"]
    by (simp add: appointment_update_status_def form_save_keys)
qed

lemma every_status_is_a_choice: "\<exists>s. map_of STATUS_CHOICES s = Some requested"
proof (cases requested)
  case Pending
  then have "map_of STATUS_CHOICES ''pending'' = Some requested"
    by (simp add: STATUS_CHOICES_def)
  then show ?thesis ..
next
  case Confirmed
  then have "map_of STATUS_CHOICES ''confirmed'' = Some requested"
    by (simp add: STATUS_CHOICES_def)
  then show ?thesis ..
next
  case Cancelled
  then have "map_of STATUS_CHOICES ''cancelled'' = Some requested"
    by (simp add: STATUS_CHOICES_def)
  then show ?thesis ..
next
  case Completed
  then have "map_of STATUS_CHOICES ''completed'' = Some requested"
    by (simp add: STATUS_CHOICES_def)
  then show ?thesis ..
qed

text \<open>
  C2 (as amended). The status update enforces no state machine: for every current status
  of the appointment and every requested status among the four choices, the request is
  accepted and the appointment then carries the requested status. The five transitions
  that the specification allows are accepted, and so is every other one; cancelled and
  completed are not terminal.
\<close>

theorem status_update_accepts_any_choice:
  assumes "get_object_or_404 objects i doc = Some a" and "appt_status a = current"
    and "map_of STATUS_CHOICES s = Some requested" and "e \<noteq> Unparsable"
  shows "fst (appointment_update_status objects doc i
                (Some \<lparr>post_status = s, post_end_time = e\<rparr>)) = Redirect ''doctor_dashboard'' \<and>
         map_option appt_status
           (get_object_or_404
              (snd (appointment_update_status objects doc i
                      (Some \<lparr>post_status = s, post_end_time = e\<rparr>))) i doc) = Some requested"
proof -
  let ?p = "\<lparr>post_status = s, post_end_time = e\<rparr>"
  have v: "form_is_valid ?p"
    using assms(3,4) by (simp add: form_is_valid_def)
  have "appt_status (form_save a ?p) = requested"
    using assms(3) by (simp add: form_save_def)
  with update_status_valid [OF assms(1) v] show ?thesis by simp
qed

theorem status_update_accepts_any_choice_witness:
  "get_object_or_404 [cancelled_row] 1 1 = Some cancelled_row \<and>
   appt_status cancelled_row = Cancelled \<and>
   map_of STATUS_CHOICES ''pending'' = Some Pending \<and>
   fst (appointment_update_status [cancelled_row] 1 1
          (Some \<lparr>post_status = ''pending'', post_end_time = Blank\<rparr>))
     = Redirect ''doctor_dashboard'' \<and>
   map_option appt_status
     (get_object_or_404
        (snd (appointment_update_status [cancelled_row] 1 1
                (Some \<lparr>post_status = ''pending'', post_end_time = Blank\<rparr>))) 1 1)
     = Some Pending"
proof -
  have h1: "get_object_or_404 [cancelled_row] 1 1 = Some cancelled_row"
    by (simp add: cancelled_row_def)
  have h2: "appt_status cancelled_row = Cancelled"
    by (simp add: cancelled_row_def)
  have h3: "map_of STATUS_CHOICES ''pending'' = Some Pending"
    by (simp add: STATUS_CHOICES_def)
  have h4: "Blank \<noteq> Unparsable" by simp
  from status_update_accepts_any_choice [OF h1 h2 h3 h4] h1 h2 h3 show ?thesis by simp
qed

text \<open>
  C2 as written refuses the transition from completed to confirmed. The code accepts it
  and stores the new status.
\<close>

theorem completed_to_confirmed_counterexample:
  "appt_status completed_row = Completed \<and>
   appointment_update_status [completed_row] 1 1
     (Some \<lparr>post_status = ''confirmed'', post_end_time = Blank\<rparr>)
   = (Redirect ''doctor_dashboard'', [completed_row\<lparr>appt_status := Confirmed\<rparr>])"
  by (simp add: appointment_update_status_def completed_row_def form_is_valid_def
        form_save_def STATUS_CHOICES_def)

text \<open>
  A posted status outside the four choices fails field validation: the form is shown again
  and the table is left as it was.
\<close>

lemma status_outside_choices_refused:
  assumes "get_object_or_404 objects i doc = Some a" and "map_of STATUS_CHOICES s = None"
  shows "appointment_update_status objects doc i (Some \<lparr>post_status = s, post_end_time = e\<rparr>)
           = (Render ''appointment_status.html'', objects)"
  using assms by (simp add: appointment_update_status_def form_is_valid_def)

text \<open>
  C9 (as amended). A status update that sets \<open>end_time\<close> is accepted whatever the submitted
  time is: no comparison with the start time of the appointment is made, the start time is
  left as it was, and the appointment then carries the submitted \<open>end_time\<close>.
\<close>

theorem end_time_stored_unchecked:
  assumes "get_object_or_404 objects i doc = Some a"
    and "map_of STATUS_CHOICES s = Some requested"
  shows "fst (appointment_update_status objects doc i
                (Some \<lparr>post_status = s, post_end_time = Parsed e\<rparr>))
           = Redirect ''doctor_dashboard'' \<and>
         map_option appt_end_time
           (get_object_or_404
              (snd (appointment_update_status objects doc i
                      (Some \<lparr>post_status = s, post_end_time = Parsed e\<rparr>))) i doc)
           = Some (Some e) \<and>
         map_option appt_time
           (get_object_or_404
              (snd (appointment_update_status objects doc i
                      (Some \<lparr>post_status = s, post_end_time = Parsed e\<rparr>))) i doc)
           = Some (appt_time a)"
proof -
  let ?p = "\<lparr>post_status = s, post_end_time = Parsed e\<rparr>"
  have v: "form_is_valid ?p"
    using assms(2) by (simp add: form_is_valid_def)
  have "appt_end_time (form_save a ?p) = Some e"
    by (simp add: form_save_def)
  with update_status_valid [OF assms(1) v] show ?thesis
    by (simp add: form_save_keys)
qed

theorem end_time_stored_unchecked_witness:
  "get_object_or_404 [pending_row] 1 1 = Some pending_row \<and>
   map_of STATUS_CHOICES ''confirmed'' = Some Confirmed \<and>
   fst (appointment_update_status [pending_row] 1 1
          (Some \<lparr>post_status = ''confirmed'', post_end_time = Parsed (mk_time 10 30 0)\<rparr>))
     = Redirect ''doctor_dashboard'' \<and>
   map_option appt_end_time
     (get_object_or_404
        (snd (appointment_update_status [pending_row] 1 1
                (Some \<lparr>post_status = ''confirmed'',
                        post_end_time = Parsed (mk_time 10 30 0)\<rparr>))) 1 1)
     = Some (Some (mk_time 10 30 0))"
proof -
  have h1: "get_object_or_404 [pending_row] 1 1 = Some pending_row"
    by (simp add: pending_row_def)
  have h2: "map_of STATUS_CHOICES ''confirmed'' = Some Confirmed"
    by (simp add: STATUS_CHOICES_def)
  from end_time_stored_unchecked [OF h1 h2, of "mk_time 10 30 0"] h1 h2
  show ?thesis by simp
qed

text \<open>
  C9 as written refuses an \<open>end_time\<close> that is not after the start time. The appointment
  below starts at 10:00; the update that sets \<open>end_time\<close> to 09:00 is accepted and stored.
\<close>

theorem end_time_before_start_counterexample:
  "appt_time pending_row = mk_time 10 0 0 \<and>
   \<not> mk_time 10 0 0 < mk_time 9 0 0 \<and>
   appointment_update_status [pending_row] 1 1
     (Some \<lparr>post_status = ''completed'', post_end_time = Parsed (mk_time 9 0 0)\<rparr>)
   = (Redirect ''doctor_dashboard'',
      [pending_row\<lparr>appt_status := Completed, appt_end_time := Some (mk_time 9 0 0)\<rparr>])"
  by (simp add: appointment_update_status_def pending_row_def form_is_valid_def
        form_save_def STATUS_CHOICES_def mk_time_def)

section \<open>Counting available slots\<close>

lemma business_days_loop_list:
  "MINORDINAL \<le> current_date \<Longrightarrow> end_date < MAXORDINAL \<Longrightarrow>
   business_days_loop (JList ds) current_date end_date acc
     = Inr (acc + business_days ds current_date end_date)"
proof (induction "JList ds" current_date end_date acc rule: business_days_loop.induct)
  case (1 current_date end_date acc)
  show ?case
  proof (cases "current_date \<le> end_date")
    case True
    then have add: "date_add_days current_date 1 = Inr (current_date + 1)"
      using "1.prems" by (simp add: date_add_days_def MINORDINAL_def)
    have step: "business_days_loop (JList ds) (current_date + 1) end_date
                  (if filter (int_eq (weekday current_date)) ds \<noteq> [] then acc + 1 else acc)
                = Inr ((if filter (int_eq (weekday current_date)) ds \<noteq> [] then acc + 1 else acc)
                       + business_days ds (current_date + 1) end_date)"
      using "1.hyps" [OF True _ add] "1.prems" by (simp add: MINORDINAL_def)
    have unfold: "business_days ds current_date end_date =
            (if is_business_day ds current_date then 1 else 0)
            + business_days ds (current_date + 1) end_date"
      using True by (simp add: business_days_def upto_rec1 [of current_date end_date])
    show ?thesis
      using True add step unfold
      by (subst business_days_loop.simps) (simp add: is_business_day_def)
  next
    case False
    then show ?thesis
      by (subst business_days_loop.simps) (simp add: business_days_def)
  qed
qed

lemma business_days_loop_empty_range:
  "end_date < start_date \<Longrightarrow> business_days_loop days start_date end_date acc = Inr acc"
  by (subst business_days_loop.simps) simp

lemma total_slots_loop_all_valid:
  "valid_anchors items = items \<Longrightarrow>
   total_slots_loop items bd acc = Inr (acc + 4 * bd * int (length items))"
proof (induction items arbitrary: acc)
  case Nil
  then show ?case by simp
next
  case (Cons x xs)
  from Cons.prems
  have "\<forall>y \<in> set (x # xs). case strptime y of Inl e \<Rightarrow> False | Inr t \<Rightarrow> True"
    unfolding valid_anchors_def filter_id_conv .
  then have x: "\<exists>t. strptime x = Inr t" and xs: "valid_anchors xs = xs"
    unfolding valid_anchors_def filter_id_conv
    by (auto split: sum.splits)
  then show ?case using Cons.IH [OF xs] by (auto simp: algebra_simps)
qed

lemma strptime_HMS_error: "strptime_HMS s = Inl e \<Longrightarrow> e = ValueError"
  by (auto simp: strptime_HMS_def split: list.splits prod.splits if_splits)

lemma total_slots_loop_malformed:
  "s \<in> set strs \<Longrightarrow> strptime_HMS s = Inl e \<Longrightarrow>
   total_slots_loop (map JStr strs) bd acc = Inl ValueError"
proof (induction strs arbitrary: acc)
  case Nil
  then show ?case by simp
next
  case (Cons x xs)
  show ?case
  proof (cases "strptime_HMS x")
    case (Inl e')
    then show ?thesis using strptime_HMS_error by auto
  next
    case (Inr t)
    with Cons show ?thesis by auto
  qed
qed

lemma strptime_nine: "strptime_HMS (ustr ''09:00:00'') = Inr (mk_time 9 0 0)"
  by code_simp

lemma strptime_two_pm: "strptime_HMS (ustr ''14:00:00'') = Inr (mk_time 14 0 0)"
  by code_simp

lemma strptime_not_a_time: "strptime_HMS (ustr ''not-a-time'') = Inl ValueError"
  by code_simp

text \<open>
  Decimal digits outside ASCII are read by their value where the expression has \<open>\d\<close>:
  the text of the code points 1641, 58, 1632, 58, 1632 (an Arabic-Indic nine, a colon, a
  zero, a colon, a zero) parses as 09:00:00. Two Arabic-Indic digits for the hour do not
  match, since the first of two hour digits must be an ASCII one.
\<close>

lemma strptime_arabic_indic:
  "strptime_HMS [1641, 58, 1632, 58, 1632] = Inr (mk_time 9 0 0)"
  "strptime_HMS (ustr ''1'' @ [1641] @ ustr '':59:59'') = Inr (mk_time 19 59 59)"
  "strptime_HMS ([1632, 1641] @ ustr '':00:00'') = Inl ValueError"
  by code_simp+

lemma default_days_week: "business_days [JInt 1, JInt 2, JInt 3, JInt 4, JInt 5] 739412 739419 = 6"
  by (simp add: business_days_def is_business_day_def weekday_def)

text \<open>
  C3 (as amended). For every profile whose resolved days are a list and whose resolved
  anchors are a list in which every entry is valid, and for every date range with
  \<open>start_date \<le> end_date\<close> and \<open>end_date\<close> before the last representable date, the count
  returned is the non-negative integer 4 times the number of business days in the range
  times the number of valid anchors.
\<close>

theorem slot_count_formula:
  assumes "MINORDINAL \<le> start_date" and "start_date \<le> end_date" and "end_date < MAXORDINAL"
    and "resolve_days doctor_profile = JList ds"
    and "resolve_slots json_loads doctor_profile = JList items"
    and "valid_anchors items = items"
  shows "calculate_available_slots json_loads doctor_profile start_date end_date
           = Inr (4 * business_days ds start_date end_date * int (length (valid_anchors items)))
         \<and> 0 \<le> 4 * business_days ds start_date end_date * int (length (valid_anchors items))"
  using assms
  by (simp add: calculate_available_slots_def business_days_loop_list
        total_slots_loop_all_valid business_days_def)

theorem slot_count_formula_witness:
  "calculate_available_slots loads_none unset_profile 739412 739419 = Inr 24"
proof -
  have h1: "MINORDINAL \<le> 739412" by (simp add: MINORDINAL_def)
  have h2: "(739412 :: int) \<le> 739419" by simp
  have h3: "739419 < MAXORDINAL" by (simp add: MAXORDINAL_def)
  have h4: "resolve_days unset_profile = JList [JInt 1, JInt 2, JInt 3, JInt 4, JInt 5]"
    by (simp add: resolve_days_def unset_profile_def py_or_def DEFAULT_DAYS_def)
  have h5: "resolve_slots loads_none unset_profile = JList [JStr (ustr ''09:00:00'')]"
    by (simp add: resolve_slots_def unset_profile_def py_or_def DEFAULT_SLOTS_def)
  have h6: "valid_anchors [JStr (ustr ''09:00:00'')] = [JStr (ustr ''09:00:00'')]"
    by (simp add: valid_anchors_def strptime_nine)
  from slot_count_formula [OF h1 h2 h3 h4 h5 h6] show ?thesis
    by (simp add: h6 default_days_week)
qed

text \<open>
  C3 as written covers every configuration. With one valid and one malformed anchor the
  range of eight days has six business days and one valid anchor, so the claim promises
  24; the code raises \<open>ValueError\<close>.
\<close>

theorem slot_count_mixed_counterexample:
  "(739412 :: int) \<le> 739419 \<and>
   valid_anchors [JStr (ustr ''09:00:00''), JStr (ustr ''not-a-time'')] = [JStr (ustr ''09:00:00'')] \<and>
   calculate_available_slots loads_none mixed_profile 739412 739419 = Inl ValueError"
proof -
  have d: "resolve_days mixed_profile = JList [JInt 1, JInt 2, JInt 3, JInt 4, JInt 5]"
    by (simp add: resolve_days_def mixed_profile_def py_or_def DEFAULT_DAYS_def)
  have s: "resolve_slots loads_none mixed_profile = JList [JStr (ustr ''09:00:00''), JStr (ustr ''not-a-time'')]"
    by (simp add: resolve_slots_def mixed_profile_def py_or_def)
  have "calculate_available_slots loads_none mixed_profile 739412 739419 = Inl ValueError"
    by (simp add: calculate_available_slots_def d s business_days_loop_list MINORDINAL_def
        MAXORDINAL_def strptime_nine strptime_not_a_time)
  then show ?thesis
    by (simp add: valid_anchors_def strptime_nine strptime_not_a_time)
qed

text \<open>
  The bound on \<open>end_date\<close> is needed: the day loop steps one day past \<open>end_date\<close> before it
  stops, which the last representable date does not allow.
\<close>

lemma slot_count_last_day:
  "calculate_available_slots loads_none unset_profile 3652059 3652059 = Inl OverflowError"
  by code_simp

text \<open>
  C4 (as amended). A configured entry that fails to parse as \<open>%H:%M:%S\<close> is not skipped:
  whenever the day count returns and the resolved anchors are a list of strings holding
  such an entry, the computation raises \<open>ValueError\<close> and returns no count.
\<close>

theorem malformed_entry_raises:
  assumes "business_days_loop (resolve_days doctor_profile) start_date end_date 0 = Inr bd"
    and "resolve_slots json_loads doctor_profile = JList (map JStr strs)"
    and "s \<in> set strs" and "strptime_HMS s = Inl e"
  shows "calculate_available_slots json_loads doctor_profile start_date end_date = Inl ValueError"
  using assms
  by (simp add: calculate_available_slots_def total_slots_loop_malformed)

theorem malformed_entry_raises_witness:
  "business_days_loop (resolve_days mixed_profile) 739412 739412 0 = Inr 1 \<and>
   resolve_slots loads_none mixed_profile = JList (map JStr [ustr ''09:00:00'', ustr ''not-a-time'']) \<and>
   strptime_HMS (ustr ''not-a-time'') = Inl ValueError \<and>
   calculate_available_slots loads_none mixed_profile 739412 739412 = Inl ValueError"
proof -
  have d: "resolve_days mixed_profile = JList [JInt 1, JInt 2, JInt 3, JInt 4, JInt 5]"
    by (simp add: resolve_days_def mixed_profile_def py_or_def DEFAULT_DAYS_def)
  have h1: "business_days_loop (resolve_days mixed_profile) 739412 739412 0 = Inr 1"
    by (simp add: d business_days_loop_list MINORDINAL_def MAXORDINAL_def
        business_days_def is_business_day_def weekday_def)
  have h2: "resolve_slots loads_none mixed_profile
              = JList (map JStr [ustr ''09:00:00'', ustr ''not-a-time''])"
    by (simp add: resolve_slots_def mixed_profile_def py_or_def)
  have h3: "ustr ''not-a-time'' \<in> set [ustr ''09:00:00'', ustr ''not-a-time'']" by simp
  have h4: "strptime_HMS (ustr ''not-a-time'') = Inl ValueError" by (rule strptime_not_a_time)
  from malformed_entry_raises [OF h1 h2 h3 h4] h1 h2 h4 show ?thesis by simp
qed

text \<open>
  C4 as written says that \<open>["09:00:00", "not-a-time"]\<close> gives a one-element anchor list and
  no exception. The code reaches the malformed entry and raises, even over an empty range
  of dates.
\<close>

theorem malformed_anchor_counterexample:
  "available_time_slots mixed_profile = JList [JStr (ustr ''09:00:00''), JStr (ustr ''not-a-time'')] \<and>
   calculate_available_slots loads_none mixed_profile 739412 739418 = Inl ValueError \<and>
   calculate_available_slots loads_none mixed_profile 739413 739412 = Inl ValueError"
proof -
  have d: "resolve_days mixed_profile = JList [JInt 1, JInt 2, JInt 3, JInt 4, JInt 5]"
    by (simp add: resolve_days_def mixed_profile_def py_or_def DEFAULT_DAYS_def)
  have s: "resolve_slots loads_none mixed_profile = JList [JStr (ustr ''09:00:00''), JStr (ustr ''not-a-time'')]"
    by (simp add: resolve_slots_def mixed_profile_def py_or_def)
  have a: "calculate_available_slots loads_none mixed_profile 739412 739418 = Inl ValueError"
    by (simp add: calculate_available_slots_def d s business_days_loop_list MINORDINAL_def
        MAXORDINAL_def strptime_nine strptime_not_a_time)
  have b: "calculate_available_slots loads_none mixed_profile 739413 739412 = Inl ValueError"
    by (simp add: calculate_available_slots_def d s business_days_loop_empty_range
        strptime_nine strptime_not_a_time)
  from a b show ?thesis by (simp add: mixed_profile_def)
qed

text \<open>
  The one guarded failure is the decoding of a slots value stored as text: when
  \<open>json.loads\<close> raises, the single default anchor 09:00:00 is used and a count is returned.
\<close>

lemma undecodable_text_falls_back:
  assumes "available_time_slots doctor_profile = JStr raw" and "json_loads raw = None"
    and "business_days_loop (resolve_days doctor_profile) start_date end_date 0 = Inr bd"
  shows "calculate_available_slots json_loads doctor_profile start_date end_date = Inr (4 * bd)"
  using assms
  by (simp add: calculate_available_slots_def resolve_slots_def DEFAULT_SLOTS_def strptime_nine)

text \<open>
  C7 (as amended). For every date range with \<open>start_date > end_date\<close> no range check is
  made: the day loop does not run, the business days are 0, and whenever the resolved
  anchors can be iterated and every entry is valid the computation returns the count 0.
\<close>

theorem reversed_range_counts_zero:
  assumes "end_date < start_date"
    and "iter_json (resolve_slots json_loads doctor_profile) = Inr items"
    and "valid_anchors items = items"
  shows "calculate_available_slots json_loads doctor_profile start_date end_date = Inr 0"
  using assms
  by (simp add: calculate_available_slots_def business_days_loop_empty_range
        total_slots_loop_all_valid)

theorem reversed_range_counts_zero_witness:
  "(739412 :: int) < 739419 \<and>
   iter_json (resolve_slots loads_none unset_profile) = Inr [JStr (ustr ''09:00:00'')] \<and>
   valid_anchors [JStr (ustr ''09:00:00'')] = [JStr (ustr ''09:00:00'')] \<and>
   calculate_available_slots loads_none unset_profile 739419 739412 = Inr 0"
proof -
  have h1: "(739412 :: int) < 739419" by simp
  have h2: "iter_json (resolve_slots loads_none unset_profile) = Inr [JStr (ustr ''09:00:00'')]"
    by (simp add: resolve_slots_def unset_profile_def py_or_def DEFAULT_SLOTS_def)
  have h3: "valid_anchors [JStr (ustr ''09:00:00'')] = [JStr (ustr ''09:00:00'')]"
    by (simp add: valid_anchors_def strptime_nine)
  from reversed_range_counts_zero [OF h1 h2 h3] h1 h2 h3 show ?thesis by simp
qed

text \<open>
  C7 as written makes a reversed range fail. For the range from 2025-06-11 back to
  2025-06-10 and a profile with two valid anchors configured as a list the code returns
  the count 0.
\<close>

theorem reversed_range_counterexample:
  "(739412 :: int) < 739413 \<and>
   calculate_available_slots loads_none
     \<lparr>available_days = JList [JInt 0, JInt 1],
      available_time_slots = JList [JStr (ustr ''09:00:00''), JStr (ustr ''14:00:00'')]\<rparr>
     739413 739412 = Inr 0"
  by (simp add: calculate_available_slots_def business_days_loop_empty_range
      resolve_slots_def py_or_def strptime_nine strptime_two_pm)

section \<open>Listing free start times\<close>

lemma dt_time_combine: "valid_time t \<Longrightarrow> dt_time (combine d t) = t"
  by (simp add: dt_time_def combine_def valid_time_def US_PER_DAY_def)

lemma dt_date_combine: "valid_time t \<Longrightarrow> dt_date (combine d t) = d"
  by (simp add: dt_date_def combine_def valid_time_def US_PER_DAY_def)

lemma loop_stop:
  "\<not> dt_time current_time < end_time \<Longrightarrow>
   time_slots_loop end_time slot_duration booked_slots current_time slots = Some (Inr slots)"
  by (subst time_slots_loop.simps) simp

lemma loop_step:
  "dt_time current_time < end_time \<Longrightarrow>
   time_slots_loop end_time slot_duration booked_slots current_time slots =
     (case timedelta_minutes slot_duration of
        Inl e \<Rightarrow> Some (Inl e)
      | Inr td \<Rightarrow>
          (case datetime_add current_time td of
             Inl e \<Rightarrow> Some (Inl e)
           | Inr next_time \<Rightarrow>
               time_slots_loop end_time slot_duration booked_slots next_time
                 (add_slot booked_slots current_time slots)))"
  by (subst time_slots_loop.simps) (simp add: add_slot_def Let_def split: sum.splits)




lemma loop_diverges_zero:
  assumes "valid_date (dt_date current_time)" and "dt_time current_time < end_time"
  shows "time_slots_loop end_time 0 booked_slots current_time slots = None"
proof (rule ccontr)
  assume "time_slots_loop end_time 0 booked_slots current_time slots \<noteq> None"
  then obtain r where r: "time_slots_loop end_time 0 booked_slots current_time slots = Some r"
    by blast
  have "\<not> ((0::int) = 0 \<and> valid_date (dt_date current_time) \<and> dt_time current_time < end_time)"
  proof (rule time_slots_loop.raw_induct
      [where P = "\<lambda>et sd bs ct sl y. \<not> (sd = 0 \<and> valid_date (dt_date ct) \<and> dt_time ct < et)",
        OF _ r])
    fix f :: "time \<Rightarrow> int \<Rightarrow> string list \<Rightarrow> datetime \<Rightarrow> string list \<Rightarrow> (error + string list) option"
    fix et sd bs ct sl y
    assume IH: "\<And>et sd bs ct sl y. f et sd bs ct sl = Some y \<Longrightarrow>
                  \<not> (sd = 0 \<and> valid_date (dt_date ct) \<and> dt_time ct < et)"
    assume eq: "(if dt_time ct < et
      then let slot_str = strftime_HM (dt_time ct);
               slots' = if slot_str \<notin> set bs then sl @ [slot_str] else sl
           in case timedelta_minutes sd of Inl e \<Rightarrow> Some (Inl e)
              | Inr td \<Rightarrow>
                  case datetime_add ct td of Inl e \<Rightarrow> Some (Inl e)
                  | Inr next_time \<Rightarrow> f et sd bs next_time slots'
      else Some (Inr sl)) = Some y"
    show "\<not> (sd = 0 \<and> valid_date (dt_date ct) \<and> dt_time ct < et)"
    proof
      assume a: "sd = 0 \<and> valid_date (dt_date ct) \<and> dt_time ct < et"
      then have "datetime_add ct 0 = Inr ct" by (simp add: datetime_add_def)
      moreover have "timedelta_minutes 0 = Inr 0" by (simp add: timedelta_minutes_def)
      ultimately have "\<exists>sl'. f et sd bs ct sl' = Some y"
        using eq a by (auto simp: Let_def split: if_splits)
      then show False using IH a by blast
    qed
  qed
  with assms show False by simp
qed

lemma loop_no_wrap:
  assumes "valid_date today" and "0 < slot_duration"
    and "slot_duration * US_PER_MINUTE < US_PER_DAY"
  shows "0 \<le> t \<Longrightarrow> t + int n * (slot_duration * US_PER_MINUTE) < US_PER_DAY \<Longrightarrow>
         (\<forall>k<n. t + int k * (slot_duration * US_PER_MINUTE) < end_time) \<Longrightarrow>
         end_time \<le> t + int n * (slot_duration * US_PER_MINUTE) \<Longrightarrow>
         time_slots_loop end_time slot_duration booked_slots (combine today t) slots =
           Some (Inr (slots @ filter (\<lambda>s. s \<notin> set booked_slots)
                        (map (\<lambda>k. strftime_HM (t + int k * (slot_duration * US_PER_MINUTE)))
                           [0..<n])))"
proof (induction n arbitrary: t slots)
  case 0
  then have "valid_time t" by (simp add: valid_time_def)
  with 0 show ?case by (simp add: loop_stop dt_time_combine)
next
  case (Suc n)
  let ?D = "slot_duration * US_PER_MINUTE"
  have D: "0 < ?D" using assms(2) by (simp add: US_PER_MINUTE_def)
  have nD: "0 \<le> int n * ?D" using D by simp
  from Suc.prems D nD have vt: "valid_time t"
    by (simp add: valid_time_def algebra_simps)
  from Suc.prems have lt: "t < end_time" by force
  have td: "timedelta_minutes slot_duration = Inr ?D"
    using assms(2,3) by (simp add: timedelta_minutes_def US_PER_MINUTE_def US_PER_DAY_def)
  have tD: "t + ?D < US_PER_DAY" using Suc.prems(2) nD by (simp add: algebra_simps)
  then have vt': "valid_time (t + ?D)" using Suc.prems(1) D by (simp add: valid_time_def)
  have comb: "combine today t + ?D = combine today (t + ?D)" by (simp add: combine_def)
  have add: "datetime_add (combine today t) ?D = Inr (combine today (t + ?D))"
    using assms(1) vt' by (simp add: datetime_add_def comb dt_date_combine)
  have ih: "time_slots_loop end_time slot_duration booked_slots (combine today (t + ?D))
              (add_slot booked_slots (combine today t) slots) =
            Some (Inr (add_slot booked_slots (combine today t) slots @
                   filter (\<lambda>s. s \<notin> set booked_slots)
                     (map (\<lambda>k. strftime_HM (t + ?D + int k * ?D)) [0..<n])))"
  proof (rule Suc.IH)
    show "0 \<le> t + ?D" using Suc.prems(1) D by simp
    show "t + ?D + int n * ?D < US_PER_DAY" using Suc.prems(2) by (simp add: algebra_simps)
    show "\<forall>k<n. t + ?D + int k * ?D < end_time"
    proof (intro allI impI)
      fix k assume "k < n"
      then have "Suc k < Suc n" by simp
      with Suc.prems(3) have "t + int (Suc k) * ?D < end_time" by blast
      then show "t + ?D + int k * ?D < end_time" by (simp add: algebra_simps)
    qed
    show "end_time \<le> t + ?D + int n * ?D" using Suc.prems(4) by (simp add: algebra_simps)
  qed
  have shift: "map (\<lambda>k. strftime_HM (t + int k * ?D)) [0..<Suc n] =
               strftime_HM t # map (\<lambda>k. strftime_HM (t + ?D + int k * ?D)) [0..<n]"
    by (simp add: upt_conv_Cons map_Suc_upt [symmetric] algebra_simps del: upt_Suc)
  show ?case
    using lt vt td add ih
    by (simp only: shift) (simp add: loop_step dt_time_combine add_slot_def)
qed

text \<open>
  C5 (as amended). The start times are formatted as \<open>%H:%M\<close> and compared with the booked
  ones in that format. When the step is positive and the first candidate at or after
  \<open>end_time\<close>, the one of index \<open>n\<close>, still lies on the same day, the result is, in
  chronological order, exactly the formatted candidates
  \<open>start_time + k * slot_duration\<close> minutes for \<open>k < n\<close>, which are the candidates before
  \<open>end_time\<close>, without those found in \<open>booked_slots\<close>.
\<close>

theorem bookable_start_times:
  assumes "valid_date today" and "valid_time start_time" and "0 < slot_duration"
    and "\<forall>k<n. start_time + int k * (slot_duration * US_PER_MINUTE) < end_time"
    and "end_time \<le> start_time + int n * (slot_duration * US_PER_MINUTE)"
    and "start_time + int n * (slot_duration * US_PER_MINUTE) < US_PER_DAY"
  shows "get_available_time_slots today start_time end_time slot_duration booked_slots =
           Some (Inr (filter (\<lambda>s. s \<notin> set booked_slots)
                        (map (\<lambda>k. strftime_HM
                                     (start_time + int k * (slot_duration * US_PER_MINUTE)))
                           [0..<n])))"
proof (cases n)
  case 0
  with assms(2,5) show ?thesis
    by (simp add: get_available_time_slots_def loop_stop dt_time_combine)
next
  case (Suc m)
  let ?D = "slot_duration * US_PER_MINUTE"
  have "0 < ?D" using assms(3) by (simp add: US_PER_MINUTE_def)
  then have "0 \<le> int m * ?D" by simp
  moreover have "start_time + int m * ?D + ?D < US_PER_DAY"
    using assms(6) Suc by (simp add: algebra_simps)
  moreover have "0 \<le> start_time" using assms(2) by (simp add: valid_time_def)
  ultimately have small: "?D < US_PER_DAY" by linarith
  have "0 \<le> start_time" using assms(2) by (simp add: valid_time_def)
  from loop_no_wrap [OF assms(1) assms(3) small this assms(6) assms(4) assms(5),
      of booked_slots "[]"]
  show ?thesis by (simp add: get_available_time_slots_def)
qed

theorem bookable_start_times_witness:
  "get_available_time_slots 739412 (mk_time 9 0 0) (mk_time 11 0 0) 30 [''09:30'']
     = Some (Inr [''09:00'', ''10:00'', ''10:30''])"
proof -
  have h1: "valid_date 739412" by (simp add: valid_date_def MINORDINAL_def MAXORDINAL_def)
  have h2: "valid_time (mk_time 9 0 0)" by (simp add: valid_time_def mk_time_def US_PER_DAY_def)
  have h3: "(0 :: int) < 30" by simp
  have h4: "\<forall>k<4. mk_time 9 0 0 + int k * (30 * US_PER_MINUTE) < mk_time 11 0 0"
  proof (intro allI impI)
    fix k :: nat assume "k < 4"
    then have "int k \<le> 3" by simp
    then show "mk_time 9 0 0 + int k * (30 * US_PER_MINUTE) < mk_time 11 0 0"
      by (simp add: mk_time_def US_PER_MINUTE_def)
  qed
  have h5: "mk_time 11 0 0 \<le> mk_time 9 0 0 + int 4 * (30 * US_PER_MINUTE)"
    by (simp add: mk_time_def US_PER_MINUTE_def)
  have h6: "mk_time 9 0 0 + int 4 * (30 * US_PER_MINUTE) < US_PER_DAY"
    by (simp add: mk_time_def US_PER_MINUTE_def US_PER_DAY_def)
  have up: "[0..<4] = [0, 1, 2, 3 :: nat]" by (simp add: upt_rec)
  from bookable_start_times [OF h1 h2 h3 h4 h5 h6, of "[''09:30'']"] show ?thesis
    by (simp add: up mk_time_def US_PER_MINUTE_def strftime_HM_def two_digit_def
        hour_def minute_def)
qed

text \<open>
  C5 as written returns times with seconds and filters a booked \<open>09:30:00\<close>. The code
  returns \<open>%H:%M\<close> strings, and a booked entry written with seconds filters nothing.
\<close>

theorem bookable_format_counterexample:
  "get_available_time_slots 739412 (mk_time 9 0 0) (mk_time 11 0 0) 30 []
     = Some (Inr [''09:00'', ''09:30'', ''10:00'', ''10:30'']) \<and>
   get_available_time_slots 739412 (mk_time 9 0 0) (mk_time 11 0 0) 30 []
     \<noteq> Some (Inr [''09:00:00'', ''09:30:00'', ''10:00:00'', ''10:30:00'']) \<and>
   get_available_time_slots 739412 (mk_time 9 0 0) (mk_time 11 0 0) 30 [''09:30:00'']
     = Some (Inr [''09:00'', ''09:30'', ''10:00'', ''10:30''])"
  by code_simp






text \<open>
  C8 (as amended). No check of the slot duration is made. With \<open>slot_duration \<le> 0\<close> and
  \<open>start_time\<close> not before \<open>end_time\<close> the result is the empty list; with
  \<open>slot_duration = 0\<close> and \<open>start_time\<close> before \<open>end_time\<close> the loop never ends and nothing
  is returned.
\<close>

theorem nonpositive_duration_unchecked:
  "(slot_duration \<le> 0 \<and> valid_time start_time \<and> end_time \<le> start_time \<longrightarrow>
      get_available_time_slots today start_time end_time slot_duration booked_slots
        = Some (Inr [])) \<and>
   (slot_duration = 0 \<and> valid_date today \<and> valid_time start_time \<and> start_time < end_time \<longrightarrow>
      get_available_time_slots today start_time end_time slot_duration booked_slots = None)"
  by (simp add: get_available_time_slots_def loop_stop loop_diverges_zero
      dt_time_combine dt_date_combine)

theorem nonpositive_duration_unchecked_witness:
  "get_available_time_slots 739412 (mk_time 10 0 0) (mk_time 10 0 0) (- 15) [] = Some (Inr []) \<and>
   get_available_time_slots 739412 (mk_time 9 0 0) (mk_time 11 0 0) 0 [] = None"
  using nonpositive_duration_unchecked [of "- 15" "mk_time 10 0 0" "mk_time 10 0 0" 739412 "[]"]
    nonpositive_duration_unchecked [of 0 "mk_time 9 0 0" "mk_time 11 0 0" 739412 "[]"]
  by (simp add: valid_time_def valid_date_def mk_time_def US_PER_DAY_def
      MINORDINAL_def MAXORDINAL_def)

text \<open>
  C8 as written makes every call with a non-positive duration fail. With a step of -30
  minutes from 00:30 towards 01:00 the code walks backwards past midnight and returns
  two start times.
\<close>

theorem negative_duration_counterexample:
  "(- 30 :: int) \<le> 0 \<and>
   get_available_time_slots 739412 (mk_time 0 30 0) (mk_time 1 0 0) (- 30) []
     = Some (Inr [''00:30'', ''00:00''])"
  by code_simp

text \<open>
  Where the candidates pass midnight before reaching \<open>end_time\<close>, the time of day starts
  again from 00:00 and the loop goes on into the next day: from 23:00 with a step of one
  hour and \<open>end_time\<close> 23:30, the candidate after 23:00 is 00:00 of the next day, which is
  before 23:30. On the last representable day that step raises \<open>OverflowError\<close>.
\<close>

lemma loop_passes_midnight:
  "time_slots_loop (mk_time 23 30 0) 60 [] (combine 739412 (mk_time 23 0 0)) []
     = time_slots_loop (mk_time 23 30 0) 60 [] (combine 739413 (mk_time 0 0 0)) [''23:00'']"
  by (subst time_slots_loop.simps)
     (simp add: combine_def dt_time_def dt_date_def mk_time_def US_PER_DAY_def US_PER_MINUTE_def
        timedelta_minutes_def datetime_add_def valid_date_def MINORDINAL_def MAXORDINAL_def
        strftime_HM_def two_digit_def hour_def minute_def)

lemma loop_overflow_last_day:
  "get_available_time_slots 3652059 (mk_time 23 0 0) (mk_time 23 30 0) 60 []
     = Some (Inl OverflowError)"
  by code_simp

end
